theory Spec2Isabelle
  imports Complex_Main
begin

section \<open>Common data\<close>

text \<open>
  Exceptions of the Python source are values.  A function of the source that can raise
  returns \<open>py_error + 'a\<close> (\<open>Inl\<close> is the raised exception); a method that also
  mutates its object returns the object as it is left behind, next to that result.
\<close>

datatype py_error =
    ValueError string
  | TypeError string
  | AttributeError string
  | Exception string

text \<open>
  \<open>datetime\<close> values are counted in microseconds (the resolution of Python's
  \<open>datetime\<close> and \<open>timedelta\<close>); \<open>datetime.utcnow()\<close> is an argument
  \<open>now\<close> of every function that reads the clock.
\<close>

type_synonym datetime = int

text \<open>
  A decoded JSON document, the kind of value that \<open>response.json()\<close> returns: \<open>None\<close>,
  a bool, a number, a string, a list or a dictionary.
\<close>

datatype json_value =
    JNull
  | JBool bool
  | JNumber real
  | JString string
  | JArray "json_value list"
  | JObject "(string \<times> json_value) list"

subsection \<open>config/ua\_config.py\<close>

text \<open>
  The class attributes of \<open>UAConfig\<close> that the modelled code reads.  The source
  stores fractions and seconds as Python numbers; the state-of-charge thresholds are
  modelled as reals (they are only compared), the minute and second thresholds are
  integers as in the source.
\<close>

record UAConfig =
  enable_scheduled_trigger :: bool
  soc_emergency_threshold :: real
  soc_high_threshold :: real
  soc_medium_threshold :: real
  soc_trigger_threshold :: real
  minor_delay_threshold_min :: int
  major_delay_threshold_min :: int
  no_show_threshold_min :: int
  telemetry_timeout_sec :: int
  max_retries :: int
  initial_retry_delay :: int

definition UAConfig_values :: UAConfig where
  "UAConfig_values =
     \<lparr> enable_scheduled_trigger = False,
       soc_emergency_threshold = 10 / 100,
       soc_high_threshold = 25 / 100,
       soc_medium_threshold = 50 / 100,
       soc_trigger_threshold = 30 / 100,
       minor_delay_threshold_min = 5,
       major_delay_threshold_min = 15,
       no_show_threshold_min = 30,
       telemetry_timeout_sec = 60,
       max_retries = 3,
       initial_retry_delay = 1 \<rparr>"

section \<open>Components/context manager.py\<close>

datatype UrgencyLevel = EMERGENCY | HIGH | MEDIUM | LOW

record LatLon =
  lat :: real
  lon :: real

text \<open>\<open>Waypoint\<close> has the fields of \<open>LatLon\<close>.\<close>

type_synonym Waypoint = LatLon

record RawVehicleData =
  gps_location :: LatLon
  state_of_charge :: real
  remaining_range_km :: real
  destination :: "LatLon option"
  planned_route :: "Waypoint list"
  current_datetime :: datetime
  user_trigger :: bool

record VehicleContext =
  vehicle_id :: string
  timestamp :: datetime
  gps_location :: LatLon
  state_of_charge :: real
  remaining_range_km :: real
  destination :: "LatLon option"
  planned_route :: "Waypoint list"
  urgency_level :: UrgencyLevel

text \<open>\<open>ContextManager.collect_vehicle_data\<close>: the simulation stub of the source.\<close>

definition collect_vehicle_data :: "datetime \<Rightarrow> RawVehicleData" where
  "collect_vehicle_data now =
     \<lparr> RawVehicleData.gps_location = \<lparr>lat = 129716 / 10000, lon = 775946 / 10000\<rparr>,
       RawVehicleData.state_of_charge = 32 / 100,
       RawVehicleData.remaining_range_km = 120,
       RawVehicleData.destination = Some \<lparr>lat = 129352 / 10000, lon = 776245 / 10000\<rparr>,
       RawVehicleData.planned_route = [],
       current_datetime = now,
       user_trigger = False \<rparr>"

text \<open>\<open>ContextManager.compute_urgency\<close>: the first threshold that the value does not exceed.\<close>

definition compute_urgency :: "UAConfig \<Rightarrow> real \<Rightarrow> UrgencyLevel" where
  "compute_urgency config soc =
     (if soc \<le> soc_emergency_threshold config then EMERGENCY
      else if soc \<le> soc_high_threshold config then HIGH
      else if soc \<le> soc_medium_threshold config then MEDIUM
      else LOW)"

definition build_vehicle_context :: "UAConfig \<Rightarrow> string \<Rightarrow> RawVehicleData \<Rightarrow> VehicleContext" where
  "build_vehicle_context config vid raw =
     \<lparr> vehicle_id = vid,
       timestamp = current_datetime raw,
       gps_location = RawVehicleData.gps_location raw,
       state_of_charge = RawVehicleData.state_of_charge raw,
       remaining_range_km = RawVehicleData.remaining_range_km raw,
       destination = RawVehicleData.destination raw,
       planned_route = RawVehicleData.planned_route raw,
       urgency_level = compute_urgency config (RawVehicleData.state_of_charge raw) \<rparr>"

text \<open>
  \<open>ContextManager.should_trigger_charging\<close>.  Three things the method reaches for are
  arguments of the model:
  \<^item> \<open>estimate_distance\<close>, the great-circle distance \<open>_estimate_distance\<close>, which is
    floating-point trigonometry and may raise (\<open>math.sqrt\<close> of a negative rounding
    residue);
  \<^item> \<open>raw_data\<close>, the reading that the second call of \<open>collect_vehicle_data\<close> inside
    the method returns (the manual trigger flag is read from it, not from \<open>ctx\<close>);
  \<^item> \<open>scheduled_departure\<close>, the value of \<open>_scheduled_departure_trigger()\<close>.
  The four conditions are tested in the order of the source; the first one that holds
  returns \<open>True\<close>.
\<close>

definition should_trigger_charging ::
  "UAConfig \<Rightarrow> (LatLon \<Rightarrow> LatLon \<Rightarrow> py_error + real) \<Rightarrow> RawVehicleData \<Rightarrow> bool
     \<Rightarrow> VehicleContext \<Rightarrow> py_error + bool" where
  "should_trigger_charging config estimate_distance raw_data scheduled_departure ctx =
     (if state_of_charge ctx \<le> soc_trigger_threshold config then Inr True
      else
        (case (case destination ctx of
                 None \<Rightarrow> Inr False
               | Some dest \<Rightarrow>
                   (case estimate_distance (gps_location ctx) dest of
                      Inl e \<Rightarrow> Inl e
                    | Inr distance_to_dest \<Rightarrow> Inr (remaining_range_km ctx < distance_to_dest))) of
           Inl e \<Rightarrow> Inl e
         | Inr True \<Rightarrow> Inr True
         | Inr False \<Rightarrow>
             (if user_trigger raw_data then Inr True
              else if enable_scheduled_trigger config \<and> scheduled_departure then Inr True
              else Inr False)))"

text \<open>\<open>ContextManager.get_current_snapshot\<close>: one reading, built into a context.\<close>

definition get_current_snapshot :: "UAConfig \<Rightarrow> string \<Rightarrow> datetime \<Rightarrow> VehicleContext" where
  "get_current_snapshot config vid now = build_vehicle_context config vid (collect_vehicle_data now)"

text \<open>
  The order of the tiers that the specification gives, \<open>Emergency > High > Medium > Low\<close>,
  as a number (the Python enum itself is unordered).
\<close>

fun strictness :: "UrgencyLevel \<Rightarrow> nat" where
  "strictness EMERGENCY = 3"
| "strictness HIGH = 2"
| "strictness MEDIUM = 1"
| "strictness LOW = 0"

section \<open>models/reservation\_models.py\<close>

datatype CancellationReason = USER_CANCELLED | DELAY | FAULT | NO_SHOW | SYSTEM

datatype ReservationStatus = PENDING | CONFIRMED | ACTIVE | COMPLETED | CANCELLED | NO_SHOW | FAILED

record Reservation =
  reservation_id :: string
  station_id :: string
  user_id :: string
  vehicle_id :: string
  slot_id :: string
  slot_start_time_iso :: string
  slot_end_time_iso :: string
  reserved_price :: real
  status :: ReservationStatus
  created_at :: datetime
  activated_at :: "datetime option"
  completed_at :: "datetime option"
  cancelled_at :: "datetime option"
  cancellation_reason :: "CancellationReason option"

text \<open>\<open>Reservation.__post_init__\<close>: the checks made when a reservation is constructed.\<close>

definition post_init :: "Reservation \<Rightarrow> py_error option" where
  "post_init r =
     (if reserved_price r < 0 then Some (ValueError ''reserved_price cannot be negative'')
      else if reservation_id r = [] then Some (ValueError ''reservation_id required'')
      else if station_id r = [] then Some (ValueError ''station_id required'')
      else if slot_id r = [] then Some (ValueError ''slot_id required'')
      else None)"

text \<open>
  The four state transitions.  Each returns the exception it raises, if any, and the
  reservation as the call leaves it; every \<open>raise\<close> of the source comes before the
  first assignment.
\<close>

definition mark_active :: "datetime \<Rightarrow> Reservation \<Rightarrow> py_error option \<times> Reservation" where
  "mark_active now r =
     (if status r \<noteq> CONFIRMED
      then (Some (ValueError ''Only CONFIRMED reservation can become ACTIVE''), r)
      else (None, r\<lparr>status := ACTIVE, activated_at := Some now\<rparr>))"

definition mark_completed :: "datetime \<Rightarrow> Reservation \<Rightarrow> py_error option \<times> Reservation" where
  "mark_completed now r =
     (if status r \<noteq> ACTIVE
      then (Some (ValueError ''Only ACTIVE reservation can be completed''), r)
      else (None, r\<lparr>status := COMPLETED, completed_at := Some now\<rparr>))"

definition mark_cancelled ::
  "datetime \<Rightarrow> CancellationReason \<Rightarrow> Reservation \<Rightarrow> py_error option \<times> Reservation" where
  "mark_cancelled now reason r =
     (if status r \<in> {COMPLETED, CANCELLED}
      then (Some (ValueError ''Reservation already finalized''), r)
      else (None, r\<lparr>status := CANCELLED, cancellation_reason := Some reason,
                      cancelled_at := Some now\<rparr>))"

definition mark_no_show :: "datetime \<Rightarrow> Reservation \<Rightarrow> py_error option \<times> Reservation" where
  "mark_no_show now r =
     (if status r \<noteq> CONFIRMED
      then (Some (ValueError ''Only CONFIRMED reservation can be NO_SHOW''), r)
      else (None, r\<lparr>status := ReservationStatus.NO_SHOW, cancelled_at := Some now\<rparr>))"

text \<open>
  One name for "a transition operation", so that a statement can range over the four
  methods, and the status each of them moves to.
\<close>

datatype transition = MarkActive | MarkCompleted | MarkCancelled CancellationReason | MarkNoShow

fun apply_transition :: "datetime \<Rightarrow> transition \<Rightarrow> Reservation \<Rightarrow> py_error option \<times> Reservation" where
  "apply_transition now MarkActive r = mark_active now r"
| "apply_transition now MarkCompleted r = mark_completed now r"
| "apply_transition now (MarkCancelled reason) r = mark_cancelled now reason r"
| "apply_transition now MarkNoShow r = mark_no_show now r"

fun target :: "transition \<Rightarrow> ReservationStatus" where
  "target MarkActive = ACTIVE"
| "target MarkCompleted = COMPLETED"
| "target (MarkCancelled reason) = CANCELLED"
| "target MarkNoShow = ReservationStatus.NO_SHOW"

text \<open>
  The transition relation in the specification's words:
  \<open>Confirmed \<rightarrow> Active \<rightarrow> Completed\<close> or \<open>Confirmed \<rightarrow> {Cancelled, NoShow}\<close>.
\<close>

definition spec_transition :: "ReservationStatus \<Rightarrow> ReservationStatus \<Rightarrow> bool" where
  "spec_transition s s' =
     ((s = CONFIRMED \<and> s' = ACTIVE) \<or> (s = ACTIVE \<and> s' = COMPLETED)
      \<or> (s = CONFIRMED \<and> s' = CANCELLED) \<or> (s = CONFIRMED \<and> s' = ReservationStatus.NO_SHOW))"

text \<open>
  The relation the guards of the four methods implement: cancellation is accepted from every
  status that is neither \<open>COMPLETED\<close> nor \<open>CANCELLED\<close>.
\<close>

definition guarded_transition :: "ReservationStatus \<Rightarrow> ReservationStatus \<Rightarrow> bool" where
  "guarded_transition s s' =
     ((s = CONFIRMED \<and> s' = ACTIVE) \<or> (s = ACTIVE \<and> s' = COMPLETED)
      \<or> (s = CONFIRMED \<and> s' = ReservationStatus.NO_SHOW)
      \<or> (s' = CANCELLED \<and> s \<noteq> COMPLETED \<and> s \<noteq> CANCELLED))"

definition is_ValueError :: "py_error \<Rightarrow> bool" where
  "is_ValueError e = (case e of ValueError msg \<Rightarrow> True | _ \<Rightarrow> False)"

text \<open>A confirmed reservation, used where a statement is evaluated.\<close>

definition reservation_R1 :: Reservation where
  "reservation_R1 =
     \<lparr> reservation_id = ''R1'', station_id = ''ST-7'', user_id = ''user_001'',
       vehicle_id = ''vehicle_001'', slot_id = ''SL-2'',
       slot_start_time_iso = ''2026-03-01T10:00:00'', slot_end_time_iso = ''2026-03-01T11:00:00'',
       reserved_price = 12, status = CONFIRMED, created_at = 0, activated_at = None,
       completed_at = None, cancelled_at = None, cancellation_reason = None \<rparr>"

section \<open>Components/session\_monitor.py\<close>

text \<open>
  The session monitor has a \<open>Reservation\<close> dataclass of its own (its start time is an
  ISO 8601 string); it is named \<open>SessionReservation\<close> here.  Severities and session
  statuses are strings, as in the source.
\<close>

record SessionReservation =
  reservation_id :: string
  station_id :: string
  slot_id :: string
  vehicle_id :: string
  start_time :: string
  duration_min :: int
  status :: string

record TelemetryData =
  charging_progress_pct :: real
  power_kw :: real
  energy_kwh :: real
  session_status :: string
  timestamp :: string

record DelayResult =
  reservation_id :: string
  new_eta :: string
  delay_minutes :: int
  severity :: string

record SessionMonitor =
  vehicle_id :: string
  reservation :: "SessionReservation option"
  station_location :: "LatLon option"
  last_gps :: "LatLon option"
  telemetry :: "TelemetryData option"
  session_start_time :: "datetime option"
  last_telemetry_time :: "datetime option"

text \<open>\<open>SessionMonitor.__init__\<close>\<close>

definition SessionMonitor_init :: "string \<Rightarrow> SessionMonitor" where
  "SessionMonitor_init vid =
     \<lparr> vehicle_id = vid, reservation = None, station_location = None, last_gps = None,
       telemetry = None, session_start_time = None, last_telemetry_time = None \<rparr>"

text \<open>\<open>SessionMonitor.start_session_monitoring(reservation, station_location)\<close>\<close>

definition start_session_monitoring ::
  "SessionMonitor \<Rightarrow> SessionReservation \<Rightarrow> LatLon \<Rightarrow> SessionMonitor" where
  "start_session_monitoring m r loc =
     m\<lparr> reservation := Some r, station_location := Some loc, session_start_time := None,
        telemetry := None, last_telemetry_time := None \<rparr>"

text \<open>
  A \<open>datetime\<close> object is naive or aware: \<open>datetime.utcnow()\<close> is naive, and
  \<open>datetime.fromisoformat\<close> returns an aware object, with its UTC offset, for a string
  that ends in an offset such as \<open>+00:00\<close>, and a naive one otherwise.  Subtracting an
  aware object from a naive one raises \<open>TypeError\<close>.
\<close>

datatype py_datetime = Naive datetime | Aware datetime int

text \<open>
  The two functions of \<open>datetime\<close> that \<open>update_eta\<close> calls on strings:
  \<open>fromisoformat\<close> (which raises \<open>ValueError\<close> on a malformed string) and
  \<open>isoformat\<close>.
\<close>

record iso_format =
  fromisoformat :: "string \<Rightarrow> py_error + py_datetime"
  isoformat :: "datetime \<Rightarrow> string"

text \<open>
  \<open>int(td.total_seconds() / 60)\<close> for a \<open>timedelta\<close> of \<open>us\<close> microseconds:
  whole minutes, rounded towards zero.  (The source divides floats; the quotient of the
  model is the exact one, which the float computation yields for every span below a
  century.)
\<close>

definition whole_minutes :: "int \<Rightarrow> int" where
  "whole_minutes us = (if 0 \<le> us then us div 60000000 else - ((- us) div 60000000))"

text \<open>
  \<open>SessionMonitor.update_eta\<close>.  \<open>estimate_eta_minutes\<close> stands for
  \<open>_estimate_eta_minutes\<close> (floating-point great-circle distance over the average speed,
  truncated to an integer; it may raise).  The position is stored before anything can raise.
  The projected arrival is naive, so a committed start with a UTC offset makes the
  subtraction raise (the message of the source reads "can't subtract offset-naive and
  offset-aware datetimes").  Sums of dates are taken to stay within the years 1 to 9999.
\<close>

definition update_eta ::
  "UAConfig \<Rightarrow> (LatLon \<Rightarrow> LatLon \<Rightarrow> py_error + int) \<Rightarrow> iso_format \<Rightarrow> datetime
     \<Rightarrow> SessionMonitor \<Rightarrow> LatLon \<Rightarrow> (py_error + DelayResult option) \<times> SessionMonitor" where
  "update_eta config estimate_eta_minutes fmt now m current_gps =
     (case reservation m of
        None \<Rightarrow> (Inr None, m)
      | Some r \<Rightarrow>
          (case station_location m of
             None \<Rightarrow> (Inr None, m)
           | Some loc \<Rightarrow>
               (let m' = m\<lparr>last_gps := Some current_gps\<rparr> in
                case estimate_eta_minutes current_gps loc of
                  Inl e \<Rightarrow> (Inl e, m')
                | Inr eta_minutes \<Rightarrow>
                    (let new_eta_time = now + eta_minutes * 60000000 in
                     case fromisoformat fmt (start_time r) of
                       Inl e \<Rightarrow> (Inl e, m')
                     | Inr (Aware reserved_start offset) \<Rightarrow>
                         (Inl (TypeError
                            ''cannot subtract offset-naive and offset-aware datetimes''), m')
                     | Inr (Naive reserved_start) \<Rightarrow>
                         (let delay = whole_minutes (new_eta_time - reserved_start) in
                          if delay \<le> 0 then (Inr None, m')
                          else
                            (Inr (Some
                               \<lparr> reservation_id = SessionReservation.reservation_id r,
                                 new_eta = isoformat fmt new_eta_time,
                                 delay_minutes = delay,
                                 severity =
                                   (if delay \<ge> no_show_threshold_min config then ''NO_SHOW''
                                    else if delay \<ge> major_delay_threshold_min config then ''MAJOR''
                                    else ''MINOR'') \<rparr>), m'))))))"

text \<open>
  \<open>SessionMonitor.receive_telemetry\<close>; the method reads the clock twice
  (\<open>now\<close>, then \<open>now'\<close>).
\<close>

definition receive_telemetry ::
  "datetime \<Rightarrow> datetime \<Rightarrow> SessionMonitor \<Rightarrow> TelemetryData \<Rightarrow> SessionMonitor" where
  "receive_telemetry now now' m data =
     (let m' = m\<lparr>telemetry := Some data, last_telemetry_time := Some now\<rparr> in
      if session_status data = ''IN_PROGRESS'' \<and> session_start_time m' = None
      then m'\<lparr>session_start_time := Some now'\<rparr>
      else m')"

text \<open>\<open>SessionMonitor.telemetry_timeout_detected\<close>, the elapsed time in microseconds.\<close>

definition telemetry_timeout_detected :: "UAConfig \<Rightarrow> datetime \<Rightarrow> SessionMonitor \<Rightarrow> bool" where
  "telemetry_timeout_detected config now m =
     (case last_telemetry_time m of
        None \<Rightarrow> False
      | Some t \<Rightarrow> now - t > telemetry_timeout_sec config * 1000000)"

text \<open>\<open>SessionMonitor.check_session_status\<close>\<close>

definition check_session_status :: "SessionMonitor \<Rightarrow> bool" where
  "check_session_status m =
     (case telemetry m of None \<Rightarrow> False | Some t \<Rightarrow> session_status t = ''COMPLETED'')"

text \<open>
  The calls that change a monitor, as data, and a monitor's state after a sequence of
  them (the other methods of the class assign to no field).  An exception raised by
  \<open>update_eta\<close> leaves the monitor as the call left it.
\<close>

datatype monitor_call =
    StartSessionMonitoring SessionReservation LatLon
  | UpdateEta datetime LatLon
  | ReceiveTelemetry datetime datetime TelemetryData

fun is_telemetry :: "monitor_call \<Rightarrow> bool" where
  "is_telemetry (ReceiveTelemetry now now' data) = True"
| "is_telemetry c = False"

fun monitor_step ::
  "UAConfig \<Rightarrow> (LatLon \<Rightarrow> LatLon \<Rightarrow> py_error + int) \<Rightarrow> iso_format
     \<Rightarrow> SessionMonitor \<Rightarrow> monitor_call \<Rightarrow> SessionMonitor" where
  "monitor_step config est fmt m (StartSessionMonitoring r loc) = start_session_monitoring m r loc"
| "monitor_step config est fmt m (UpdateEta now gps) = snd (update_eta config est fmt now m gps)"
| "monitor_step config est fmt m (ReceiveTelemetry now now' data) = receive_telemetry now now' m data"

definition monitor_run ::
  "UAConfig \<Rightarrow> (LatLon \<Rightarrow> LatLon \<Rightarrow> py_error + int) \<Rightarrow> iso_format
     \<Rightarrow> SessionMonitor \<Rightarrow> monitor_call list \<Rightarrow> SessionMonitor" where
  "monitor_run config est fmt m calls = foldl (monitor_step config est fmt) m calls"

text \<open>Values used where a statement is evaluated.\<close>

definition reservation_S1 :: SessionReservation where
  "reservation_S1 =
     \<lparr> SessionReservation.reservation_id = ''R1'', SessionReservation.station_id = ''ST-7'',
       SessionReservation.slot_id = ''SL-2'', SessionReservation.vehicle_id = ''vehicle_001'',
       start_time = ''2026-03-01T10:00:00'', duration_min = 60,
       SessionReservation.status = ''CONFIRMED'' \<rparr>"

definition station_L1 :: LatLon where
  "station_L1 = \<lparr>lat = 13, lon = 77\<rparr>"

definition iso_S1 :: iso_format where
  "iso_S1 =
     \<lparr> fromisoformat = (\<lambda>s. if s = ''2026-03-01T10:00:00'' then Inr (Naive 0)
                           else if s = ''2026-03-01T10:00:00+00:00'' then Inr (Aware 0 0)
                           else Inl (ValueError ''Invalid isoformat string'')),
       isoformat = (\<lambda>t. ''t'') \<rparr>"



definition monitor_M1 :: SessionMonitor where
  "monitor_M1 = start_session_monitoring (SessionMonitor_init ''vehicle_001'') reservation_S1 station_L1"

definition eta_zero :: "LatLon \<Rightarrow> LatLon \<Rightarrow> py_error + int" where
  "eta_zero a b = Inr 0"

section \<open>storage/local\_cache.py\<close>

text \<open>
  A row of the table \<open>sync_queue (id INTEGER PRIMARY KEY AUTOINCREMENT, payload TEXT,
  endpoint TEXT, created_at TEXT)\<close>.
\<close>

record sync_row =
  row_id :: int
  row_payload :: string
  row_endpoint :: string
  row_created_at :: datetime

text \<open>
  The local cache: of its in-memory fields the one that the modelled orchestrator code reads
  and writes (it holds what the coordinator client returned, a decoded JSON document), and the
  \<open>sync_queue\<close> table.  The table is the list of its rows in
  insertion order, which is the order of their ids and the order in which SQLite scans the
  table for \<open>SELECT id, payload, endpoint FROM sync_queue\<close>; \<open>sync_queue_seq\<close> is
  the AUTOINCREMENT counter, the largest id handed out so far.  Statements on the database
  are taken not to fail.
\<close>

record LocalCache =
  active_reservation :: "json_value option"
  sync_queue :: "sync_row list"
  sync_queue_seq :: int

definition LocalCache_init :: LocalCache where
  "LocalCache_init = \<lparr> active_reservation = None, sync_queue = [], sync_queue_seq = 0 \<rparr>"

text \<open>
  \<open>LocalCache.enqueue_sync\<close>.  The payload is a Python dictionary, of a type \<open>'j\<close>
  that the model leaves open; \<open>json_dumps\<close> is \<open>json.dumps\<close>.
\<close>

definition enqueue_sync ::
  "('j \<Rightarrow> string) \<Rightarrow> datetime \<Rightarrow> LocalCache \<Rightarrow> string \<Rightarrow> 'j \<Rightarrow> LocalCache" where
  "enqueue_sync json_dumps now c endpoint payload =
     c\<lparr> sync_queue := sync_queue c @
            [\<lparr> row_id = sync_queue_seq c + 1, row_payload = json_dumps payload,
               row_endpoint = endpoint, row_created_at = now \<rparr>],
        sync_queue_seq := sync_queue_seq c + 1 \<rparr>"

definition get_pending_sync_items :: "LocalCache \<Rightarrow> (int \<times> string \<times> string) list" where
  "get_pending_sync_items c = map (\<lambda>r. (row_id r, row_payload r, row_endpoint r)) (sync_queue c)"

definition remove_sync_item :: "LocalCache \<Rightarrow> int \<Rightarrow> LocalCache" where
  "remove_sync_item c item_id = c\<lparr> sync_queue := filter (\<lambda>r. row_id r \<noteq> item_id) (sync_queue c) \<rparr>"

section \<open>storage/server\_sync.py\<close>

text \<open>
  The backend is a state machine of an open type \<open>'srv\<close>: \<open>post srv endpoint payload\<close>
  stands for \<open>requests.post(f"{base_url}/{endpoint}", json=payload, timeout=5)\<close> followed by
  \<open>raise_for_status()\<close>; it returns \<open>True\<close> when neither raises, and the backend's next
  state.  What a method does to the outside world is recorded in the order in which it
  happens.
\<close>

datatype 'j sync_event = RemoteAttempt string 'j | OutboxAppend string 'j

record ('srv, 'j) push_result =
  push_server :: 'srv
  push_cache :: LocalCache
  push_events :: "'j sync_event list"

definition push_to ::
  "string \<Rightarrow> ('srv \<Rightarrow> string \<Rightarrow> 'j \<Rightarrow> bool \<times> 'srv) \<Rightarrow> ('j \<Rightarrow> string) \<Rightarrow> datetime
     \<Rightarrow> 'srv \<Rightarrow> LocalCache \<Rightarrow> 'j \<Rightarrow> ('srv, 'j) push_result" where
  "push_to endpoint post json_dumps now srv c payload =
     (let (ok, srv') = post srv endpoint payload in
      if ok
      then \<lparr> push_server = srv', push_cache = c,
             push_events = [RemoteAttempt endpoint payload] \<rparr>
      else \<lparr> push_server = srv',
             push_cache = enqueue_sync json_dumps now c endpoint payload,
             push_events = [RemoteAttempt endpoint payload, OutboxAppend endpoint payload] \<rparr>)"

text \<open>
  \<open>ServerSync.push_weights\<close> and \<open>ServerSync.push_session\<close>: the same
  \<open>try: post ... except Exception: enqueue_sync\<close> with two endpoint names
  (the argument \<open>user_id\<close>, here \<open>uid\<close>, is not used by the source either).
\<close>

definition push_weights ::
  "('srv \<Rightarrow> string \<Rightarrow> 'j \<Rightarrow> bool \<times> 'srv) \<Rightarrow> ('j \<Rightarrow> string) \<Rightarrow> datetime
     \<Rightarrow> 'srv \<Rightarrow> LocalCache \<Rightarrow> string \<Rightarrow> 'j \<Rightarrow> ('srv, 'j) push_result" where
  "push_weights post json_dumps now srv c uid weight_dict =
     push_to ''save_weights'' post json_dumps now srv c weight_dict"

definition push_session ::
  "('srv \<Rightarrow> string \<Rightarrow> 'j \<Rightarrow> bool \<times> 'srv) \<Rightarrow> ('j \<Rightarrow> string) \<Rightarrow> datetime
     \<Rightarrow> 'srv \<Rightarrow> LocalCache \<Rightarrow> 'j \<Rightarrow> ('srv, 'j) push_result" where
  "push_session post json_dumps now srv c session_dict =
     push_to ''save_session'' post json_dumps now srv c session_dict"

text \<open>
  "Log before send" in the specification's words: every remote attempt of a write comes
  after the append of that write to the outbox.
\<close>

fun logged_before_send :: "'j sync_event list \<Rightarrow> (string \<times> 'j) list \<Rightarrow> bool" where
  "logged_before_send [] appended = True"
| "logged_before_send (OutboxAppend endpoint payload # events) appended =
     logged_before_send events ((endpoint, payload) # appended)"
| "logged_before_send (RemoteAttempt endpoint payload # events) appended =
     ((endpoint, payload) \<in> set appended \<and> logged_before_send events appended)"

text \<open>
  \<open>ServerSync.process_sync_queue\<close>: one pass over the snapshot \<open>items\<close>.
  \<open>json_loads\<close> is \<open>json.loads\<close>; it is called outside the \<open>try\<close>, so an
  exception of it ends the pass.  Each attempt is recorded with the id of its entry and
  whether it succeeded.  (After a failed attempt the source sleeps one second.)
\<close>

record 'srv sync_pass =
  pass_raised :: "py_error option"
  pass_server :: 'srv
  pass_cache :: LocalCache
  pass_attempts :: "(int \<times> bool) list"

fun process_items ::
  "('srv \<Rightarrow> string \<Rightarrow> 'j \<Rightarrow> bool \<times> 'srv) \<Rightarrow> (string \<Rightarrow> py_error + 'j)
     \<Rightarrow> (int \<times> string \<times> string) list \<Rightarrow> 'srv \<Rightarrow> LocalCache \<Rightarrow> (int \<times> bool) list
     \<Rightarrow> 'srv sync_pass" where
  "process_items post json_loads [] srv c attempts =
     \<lparr> pass_raised = None, pass_server = srv, pass_cache = c, pass_attempts = attempts \<rparr>"
| "process_items post json_loads ((item_id, payload_json, endpoint) # items) srv c attempts =
     (case json_loads payload_json of
        Inl e \<Rightarrow>
          \<lparr> pass_raised = Some e, pass_server = srv, pass_cache = c, pass_attempts = attempts \<rparr>
      | Inr payload \<Rightarrow>
          (let (ok, srv') = post srv endpoint payload in
           if ok
           then process_items post json_loads items srv' (remove_sync_item c item_id)
                  (attempts @ [(item_id, True)])
           else process_items post json_loads items srv' c (attempts @ [(item_id, False)])))"

definition process_sync_queue ::
  "('srv \<Rightarrow> string \<Rightarrow> 'j \<Rightarrow> bool \<times> 'srv) \<Rightarrow> (string \<Rightarrow> py_error + 'j)
     \<Rightarrow> 'srv \<Rightarrow> LocalCache \<Rightarrow> 'srv sync_pass" where
  "process_sync_queue post json_loads srv c =
     process_items post json_loads (get_pending_sync_items c) srv c []"

text \<open>
  What the backend answers when it receives a list of requests one after the other, each
  an endpoint and a payload, and the state it is in afterwards.
\<close>

fun backend_answers ::
  "('srv \<Rightarrow> string \<Rightarrow> 'j \<Rightarrow> bool \<times> 'srv) \<Rightarrow> 'srv \<Rightarrow> (string \<times> 'j) list \<Rightarrow> bool list" where
  "backend_answers post srv [] = []"
| "backend_answers post srv ((endpoint, payload) # requests) =
     fst (post srv endpoint payload)
       # backend_answers post (snd (post srv endpoint payload)) requests"

fun backend_after ::
  "('srv \<Rightarrow> string \<Rightarrow> 'j \<Rightarrow> bool \<times> 'srv) \<Rightarrow> 'srv \<Rightarrow> (string \<times> 'j) list \<Rightarrow> 'srv" where
  "backend_after post srv [] = srv"
| "backend_after post srv ((endpoint, payload) # requests) =
     backend_after post (snd (post srv endpoint payload)) requests"

text \<open>
  Values used where a statement is evaluated: payloads that are their own JSON text, a
  backend that is down, one that is up, and one that refuses exactly the payload
  \<open>''first''\<close>.
\<close>

definition text_loads :: "string \<Rightarrow> py_error + string" where
  "text_loads s = Inr s"

definition backend_down :: "unit \<Rightarrow> string \<Rightarrow> string \<Rightarrow> bool \<times> unit" where
  "backend_down srv endpoint payload = (False, srv)"

definition backend_up :: "unit \<Rightarrow> string \<Rightarrow> string \<Rightarrow> bool \<times> unit" where
  "backend_up srv endpoint payload = (True, srv)"

definition backend_refusing_first :: "unit \<Rightarrow> string \<Rightarrow> string \<Rightarrow> bool \<times> unit" where
  "backend_refusing_first srv endpoint payload = (payload \<noteq> ''first'', srv)"

definition cache_Q3 :: LocalCache where
  "cache_Q3 =
     enqueue_sync id 30
       (enqueue_sync id 20
          (enqueue_sync id 10 LocalCache_init ''save_session'' ''first'')
          ''save_weights'' ''second'')
       ''save_session'' ''third''"

text \<open>
  The invariant of the table that \<open>AUTOINCREMENT\<close> maintains: the ids grow along the
  table and none exceeds the counter.
\<close>

definition queue_ordered :: "LocalCache \<Rightarrow> bool" where
  "queue_ordered c =
     (sorted_wrt (<) (map row_id (sync_queue c))
      \<and> list_all (\<lambda>r. row_id r \<le> sync_queue_seq c) (sync_queue c))"

section \<open>utils/retry\_policy.py\<close>

text \<open>
  The delays are Python floats; the model leaves their type \<open>'d\<close> open and uses only
  its multiplication and the comparison with zero.
\<close>

record 'd RetryPolicy =
  max_attempts :: int
  initial_delay :: 'd
  backoff_factor :: 'd

text \<open>The defaults of \<open>RetryPolicy.__init__\<close>.\<close>

definition RetryPolicy_init :: "real RetryPolicy" where
  "RetryPolicy_init = \<lparr> max_attempts = 3, initial_delay = 1, backoff_factor = 2 \<rparr>"

text \<open>
  What a retrying call did: the exception it raised or the value it returned (\<open>None\<close> is
  Python's \<open>None\<close>, returned when the function body ends without a \<open>return\<close>), how
  often it called the wrapped function, and the delays it slept, in order.
\<close>

record ('a, 'd) retry_run =
  returned :: "py_error + 'a option"
  calls_made :: nat
  slept :: "'d list"

text \<open>
  \<open>RetryPolicy.execute\<close>: the loop over \<open>range(1, max_attempts + 1)\<close>.  The wrapped
  call is \<open>func\<close>; \<open>func n\<close> is what its call number \<open>n\<close> (counted from 0) returns or
  raises.  \<open>time.sleep\<close> raises \<open>ValueError\<close> for a negative delay.
\<close>

fun execute_attempts ::
  "('d::{times,zero,ord}) RetryPolicy \<Rightarrow> (nat \<Rightarrow> py_error + 'a) \<Rightarrow> int list \<Rightarrow> 'd \<Rightarrow> nat
     \<Rightarrow> 'd list \<Rightarrow> ('a, 'd) retry_run" where
  "execute_attempts policy func [] delay n sl =
     \<lparr> returned = Inr None, calls_made = n, slept = sl \<rparr>"
| "execute_attempts policy func (attempt # attempts) delay n sl =
     (case func n of
        Inr result \<Rightarrow> \<lparr> returned = Inr (Some result), calls_made = Suc n, slept = sl \<rparr>
      | Inl e \<Rightarrow>
          (if attempt = max_attempts policy
           then \<lparr> returned = Inl e, calls_made = Suc n, slept = sl \<rparr>
           else if delay < 0
           then \<lparr> returned = Inl (ValueError ''sleep length must be non-negative''),
                  calls_made = Suc n, slept = sl \<rparr>
           else execute_attempts policy func attempts (delay * backoff_factor policy) (Suc n)
                  (sl @ [delay])))"

definition execute ::
  "('d::{times,zero,ord}) RetryPolicy \<Rightarrow> (nat \<Rightarrow> py_error + 'a) \<Rightarrow> ('a, 'd) retry_run" where
  "execute policy func =
     execute_attempts policy func [1..max_attempts policy] (initial_delay policy) 0 []"

section \<open>communication/ca\_client.py\<close>

text \<open>
  \<open>CAClient._post_with_retry\<close>: the loop over \<open>range(retries)\<close>, and the
  \<open>raise\<close> after it.  \<open>request n\<close> is the outcome of request number \<open>n\<close>:
  the decoded JSON body, or the exception of \<open>requests.post\<close>, \<open>raise_for_status\<close> or
  \<open>response.json\<close>.  The method sleeps after every failed request, also after the last.
\<close>

fun post_attempts ::
  "(nat \<Rightarrow> py_error + 'a) \<Rightarrow> int list \<Rightarrow> int \<Rightarrow> nat \<Rightarrow> int list \<Rightarrow> ('a, int) retry_run" where
  "post_attempts request [] delay n sl =
     \<lparr> returned = Inl (Exception ''CA unreachable after retries''), calls_made = n, slept = sl \<rparr>"
| "post_attempts request (attempt # attempts) delay n sl =
     (case request n of
        Inr body \<Rightarrow> \<lparr> returned = Inr (Some body), calls_made = Suc n, slept = sl \<rparr>
      | Inl e \<Rightarrow>
          (if delay < 0
           then \<lparr> returned = Inl (ValueError ''sleep length must be non-negative''),
                  calls_made = Suc n, slept = sl \<rparr>
           else post_attempts request attempts (delay * 2) (Suc n) (sl @ [delay])))"

definition post_with_retry :: "UAConfig \<Rightarrow> (nat \<Rightarrow> py_error + 'a) \<Rightarrow> ('a, int) retry_run" where
  "post_with_retry config request =
     post_attempts request [0..max_retries config - 1] (initial_retry_delay config) 0 []"

text \<open>Wrapped calls used where a statement is evaluated.\<close>

definition always_failing :: "nat \<Rightarrow> py_error + string" where
  "always_failing n = Inl (Exception ''connection refused'')"

definition succeeding_third :: "nat \<Rightarrow> py_error + string" where
  "succeeding_third n = (if n = 2 then Inr ''ok'' else Inl (Exception ''connection refused''))"

text \<open>
  The delay before retry number \<open>k + 1\<close>: the first delay multiplied \<open>k\<close> times by the
  factor, in the order in which the loop multiplies.
\<close>

fun backoff_delay :: "('d::times) \<Rightarrow> 'd \<Rightarrow> nat \<Rightarrow> 'd" where
  "backoff_delay d f 0 = d"
| "backoff_delay d f (Suc k) = backoff_delay d f k * f"

section \<open>Components/recommendation\_manager.py\<close>

record StationOption =
  station_id :: string
  station_name :: string
  rank :: int
  estimated_wait_min :: int
  estimated_cost :: real
  distance_km :: real
  available_slots :: int
  charger_type :: string
  power_kw :: real
  operator :: string

record SelectionResult =
  action :: string
  station_id :: "string option"

text \<open>
  The recommendation manager: the ranked list last received from the coordinator, and the
  deferred flag.
\<close>

record RecommendationManager =
  ranked_stations :: "StationOption list"
  deferred :: bool

definition RecommendationManager_init :: RecommendationManager where
  "RecommendationManager_init = \<lparr> ranked_stations = [], deferred = False \<rparr>"

definition receive_ranked_stations ::
  "RecommendationManager \<Rightarrow> StationOption list \<Rightarrow> RecommendationManager" where
  "receive_ranked_stations rm stations = rm\<lparr> ranked_stations := stations, deferred := False \<rparr>"

text \<open>\<open>str.upper\<close> on the ASCII letters (no other character maps to a letter of \<open>ACCEPT\<close>).\<close>

definition ascii_upper :: "char \<Rightarrow> char" where
  "ascii_upper ch =
     (let n = (of_char ch :: nat) in if 97 \<le> n \<and> n \<le> 122 then char_of (n - 32) else ch)"

definition upper :: "string \<Rightarrow> string" where
  "upper s = map ascii_upper s"

text \<open>
  \<open>RecommendationManager.handle_user_selection(action, station_id)\<close>; the arguments are
  \<open>act\<close> and \<open>sid\<close> here.  An absent or empty station id is falsy.  The text of the
  second \<open>ValueError\<close> has a dash outside ASCII in the source.
\<close>

definition handle_user_selection ::
  "RecommendationManager \<Rightarrow> string \<Rightarrow> string option
     \<Rightarrow> (py_error + SelectionResult) \<times> RecommendationManager" where
  "handle_user_selection rm act sid =
     (if upper act = ''ACCEPT'' then
        (case sid of
           None \<Rightarrow> (Inl (ValueError ''Station ID required for ACCEPT''), rm)
         | Some s \<Rightarrow>
             if s = [] then (Inl (ValueError ''Station ID required for ACCEPT''), rm)
             else if \<not> list_ex (\<lambda>opt. StationOption.station_id opt = s) (ranked_stations rm)
             then (Inl (ValueError ''Invalid station ID - not in CA list''), rm)
             else (Inr \<lparr> action = ''ACCEPT'', station_id = Some s \<rparr>, rm))
      else if upper act = ''REJECT'' then (Inr \<lparr> action = ''REJECT'', station_id = None \<rparr>, rm)
      else if upper act = ''DEFER''
      then (Inr \<lparr> action = ''DEFER'', station_id = None \<rparr>, rm\<lparr> deferred := True \<rparr>)
      else (Inl (ValueError ''Invalid action. Use ACCEPT/REJECT/DEFER''), rm))"

section \<open>orchestrator/ua\_orchestrator.py\<close>

datatype UAState =
    IDLE | MONITORING | REQUESTING_STATIONS | AWAITING_USER_SELECTION | RESERVATION_CONFIRMED
  | SESSION_ACTIVE | SESSION_COMPLETED | DEFERRED | ERROR

text \<open>
  The orchestrator: its state, the components and the cache that the modelled methods use,
  and \<open>confirm_calls\<close>, a record of the outside world: the station ids with which
  \<open>ca_client.confirm_station_selection\<close> has been called, in order.
\<close>

record UAOrchestrator =
  state :: UAState
  recommendation_manager :: RecommendationManager
  session_monitor :: SessionMonitor
  cache :: LocalCache
  confirm_calls :: "string list"

definition UAOrchestrator_init :: "string \<Rightarrow> UAOrchestrator" where
  "UAOrchestrator_init vid =
     \<lparr> state = IDLE, recommendation_manager = RecommendationManager_init,
       session_monitor = SessionMonitor_init vid, cache = LocalCache_init, confirm_calls = [] \<rparr>"

text \<open>
  The attribute read \<open>reservation.reservation_id\<close> of the log line in
  \<open>_confirm_reservation\<close>.  The value read from is what \<open>CAClient._post_with_retry\<close>
  returned, \<open>response.json()\<close>; no such value has an attribute of that name, so the read
  raises \<open>AttributeError\<close>.
\<close>

definition reservation_id_attribute :: "json_value \<Rightarrow> py_error + string" where
  "reservation_id_attribute body = Inl (AttributeError ''object has no attribute reservation_id'')"

text \<open>
  \<open>UAOrchestrator._confirm_reservation\<close>.  \<open>ca sid\<close> is what
  \<open>ca_client.confirm_station_selection\<close> returns, the decoded body of the coordinator's
  answer, or the exception it raises once its retries are used up.  The answer is cached
  and the state assigned before the log line is evaluated; an exception of the log line is
  caught by the same \<open>except\<close> as an exception of the coordinator call.
\<close>

definition confirm_reservation ::
  "(string \<Rightarrow> py_error + json_value) \<Rightarrow> UAOrchestrator \<Rightarrow> string \<Rightarrow> UAOrchestrator" where
  "confirm_reservation ca orch sid =
     (let called = orch\<lparr> confirm_calls := confirm_calls orch @ [sid] \<rparr> in
      case ca sid of
        Inl e \<Rightarrow> called\<lparr> state := MONITORING \<rparr>
      | Inr body \<Rightarrow>
          (let assigned = called\<lparr> cache := (cache called)\<lparr> active_reservation := Some body \<rparr>,
                                   state := RESERVATION_CONFIRMED \<rparr> in
           case reservation_id_attribute body of
             Inl e \<Rightarrow> assigned\<lparr> state := MONITORING \<rparr>
           | Inr rid \<Rightarrow> assigned))"

text \<open>
  \<open>UAOrchestrator.handle_user_action(action, station_id)\<close>.  An exception of
  \<open>handle_user_selection\<close> is not caught: it leaves the method at once.  The comparisons
  that follow are on \<open>action\<close> as it was passed, not on its upper-case form;
  \<open>truthy\<close> is the truth value Python gives to an optional string.
\<close>

definition truthy :: "string option \<Rightarrow> bool" where
  "truthy sid = (case sid of None \<Rightarrow> False | Some s \<Rightarrow> s \<noteq> [])"

definition handle_user_action ::
  "(string \<Rightarrow> py_error + json_value) \<Rightarrow> UAOrchestrator \<Rightarrow> string \<Rightarrow> string option
     \<Rightarrow> py_error option \<times> UAOrchestrator" where
  "handle_user_action ca orch act sid =
     (case handle_user_selection (recommendation_manager orch) act sid of
        (Inl e, rm) \<Rightarrow> (Some e, orch\<lparr> recommendation_manager := rm \<rparr>)
      | (Inr result, rm) \<Rightarrow>
          (let orch' = orch\<lparr> recommendation_manager := rm \<rparr> in
           if act = ''ACCEPT'' \<and> truthy sid
           then (case sid of
                   Some s \<Rightarrow> (None, confirm_reservation ca orch' s)
                 | None \<Rightarrow> (None, orch'))
           else if act = ''REJECT'' then (None, orch')
           else if act = ''DEFER'' then (None, orch'\<lparr> state := DEFERRED \<rparr>)
           else (None, orch')))"

text \<open>
  A call of \<open>SessionMonitor.start_session_monitoring(self, reservation, station_location)\<close>
  as Python binds it.  Both parameters are required: a call with one positional argument,
  whatever its value, raises \<open>TypeError\<close> before the body runs.  A call with both
  arguments that passes \<open>None\<close> as the reservation runs the assignments and raises on the
  log line, which reads \<open>reservation.reservation_id\<close>.
\<close>

datatype 'r start_arguments =
    ReservationOnly 'r
  | ReservationAndLocation "SessionReservation option" LatLon

definition call_start_session_monitoring ::
  "SessionMonitor \<Rightarrow> 'r start_arguments \<Rightarrow> py_error option \<times> SessionMonitor" where
  "call_start_session_monitoring m arguments =
     (case arguments of
        ReservationOnly x \<Rightarrow>
          (Some (TypeError
             ''start_session_monitoring() missing 1 required positional argument: station_location''),
           m)
      | ReservationAndLocation res loc \<Rightarrow>
          (case res of
             Some r \<Rightarrow> (None, start_session_monitoring m r loc)
           | None \<Rightarrow>
               (Some (AttributeError ''NoneType object has no attribute reservation_id''),
                m\<lparr> reservation := None, station_location := Some loc,
                   session_start_time := None, telemetry := None,
                   last_telemetry_time := None \<rparr>)))"

text \<open>
  \<open>UAOrchestrator._start_session_monitoring\<close>: the call passes the cached reservation
  and nothing else; the state is set after the call returns.
\<close>

definition orch_start_session_monitoring :: "UAOrchestrator \<Rightarrow> py_error option \<times> UAOrchestrator" where
  "orch_start_session_monitoring orch =
     (case call_start_session_monitoring (session_monitor orch)
             (ReservationOnly (active_reservation (cache orch))) of
        (Some e, m) \<Rightarrow> (Some e, orch\<lparr> session_monitor := m \<rparr>)
      | (None, m) \<Rightarrow> (None, orch\<lparr> session_monitor := m, state := SESSION_ACTIVE \<rparr>))"

text \<open>
  \<open>UAOrchestrator._run_cycle\<close>: the dispatch on the state.  The handlers of the states
  \<open>MONITORING\<close>, \<open>REQUESTING_STATIONS\<close>, \<open>SESSION_ACTIVE\<close> and
  \<open>SESSION_COMPLETED\<close> are arguments of the model.
\<close>

record cycle_handlers =
  handle_monitoring :: "UAOrchestrator \<Rightarrow> py_error option \<times> UAOrchestrator"
  request_stations_from_ca :: "UAOrchestrator \<Rightarrow> py_error option \<times> UAOrchestrator"
  monitor_session :: "UAOrchestrator \<Rightarrow> py_error option \<times> UAOrchestrator"
  finalize_session :: "UAOrchestrator \<Rightarrow> py_error option \<times> UAOrchestrator"

definition run_cycle :: "cycle_handlers \<Rightarrow> UAOrchestrator \<Rightarrow> py_error option \<times> UAOrchestrator" where
  "run_cycle h orch =
     (if state orch = MONITORING then handle_monitoring h orch
      else if state orch = REQUESTING_STATIONS then request_stations_from_ca h orch
      else if state orch = AWAITING_USER_SELECTION then (None, orch)
      else if state orch = RESERVATION_CONFIRMED then orch_start_session_monitoring orch
      else if state orch = SESSION_ACTIVE then monitor_session h orch
      else if state orch = SESSION_COMPLETED then finalize_session h orch
      else if state orch = DEFERRED then (None, orch)
      else (None, orch))"

text \<open>
  One round of the loop of \<open>UAOrchestrator.start\<close>: an exception of the cycle is caught
  and the state becomes \<open>ERROR\<close> (the sleeps are left out).
\<close>

definition loop_round :: "cycle_handlers \<Rightarrow> UAOrchestrator \<Rightarrow> UAOrchestrator" where
  "loop_round h orch =
     (case run_cycle h orch of
        (None, orch') \<Rightarrow> orch'
      | (Some e, orch') \<Rightarrow> orch'\<lparr> state := ERROR \<rparr>)"

text \<open>Values used where a statement is evaluated.\<close>

definition station_A :: StationOption where
  "station_A =
     \<lparr> StationOption.station_id = ''ST-1'', station_name = ''North'', rank = 1,
       estimated_wait_min = 5, estimated_cost = 10, distance_km = 2, available_slots = 3,
       charger_type = ''CCS'', StationOption.power_kw = 50, operator = ''op'' \<rparr>"

definition station_B :: StationOption where
  "station_B = station_A\<lparr> StationOption.station_id := ''ST-2'', rank := 2 \<rparr>"

definition answer_C1 :: "string \<Rightarrow> json_value" where
  "answer_C1 sid =
     JObject [(''reservation_id'', JString ''R1''), (''station_id'', JString sid),
              (''start_time'', JString ''2026-03-01T10:00:00'')]"

definition coordinator_C1 :: "string \<Rightarrow> py_error + json_value" where
  "coordinator_C1 sid = Inr (answer_C1 sid)"

definition orchestrator_awaiting :: UAOrchestrator where
  "orchestrator_awaiting =
     (UAOrchestrator_init ''vehicle_001'')
       \<lparr> state := AWAITING_USER_SELECTION,
         recommendation_manager :=
           receive_ranked_stations RecommendationManager_init [station_A, station_B] \<rparr>"

text \<open>
  The orchestrator as \<open>_confirm_reservation\<close> has it once it has cached the coordinator's
  answer for \<open>ST-2\<close> and assigned the state \<open>RESERVATION_CONFIRMED\<close>.
\<close>

definition orchestrator_confirmed :: UAOrchestrator where
  "orchestrator_confirmed =
     orchestrator_awaiting
       \<lparr> state := RESERVATION_CONFIRMED,
         cache := LocalCache_init\<lparr> active_reservation := Some (answer_C1 ''ST-2'') \<rparr>,
         confirm_calls := [''ST-2''] \<rparr>"

definition idle_handlers :: cycle_handlers where
  "idle_handlers =
     \<lparr> handle_monitoring = (\<lambda>orch. (None, orch)),
       request_stations_from_ca = (\<lambda>orch. (None, orch)),
       monitor_session = (\<lambda>orch. (None, orch)),
       finalize_session = (\<lambda>orch. (None, orch)) \<rparr>"

section \<open>Properties of the context manager\<close>

lemma compute_urgency_antimono:
  "soc \<le> soc' \<Longrightarrow> strictness (compute_urgency config soc') \<le> strictness (compute_urgency config soc)"
  by (simp add: compute_urgency_def)

text \<open>
  Claim C7.  The urgency tier is a function of the state of charge and the three thresholds
  alone; a lower state of charge never gives a less strict tier; with ascending thresholds
  each tier is exactly one interval of the state of charge, and a value equal to a threshold
  belongs to the stricter tier: at most the emergency threshold is EMERGENCY, above it and at
  most the high threshold is HIGH, above that and at most the medium threshold is MEDIUM,
  anything above is LOW.
\<close>

theorem compute_urgency_step_function:
  assumes "soc_emergency_threshold config < soc_high_threshold config"
      and "soc_high_threshold config < soc_medium_threshold config"
  shows "(soc \<le> soc' \<longrightarrow>
            strictness (compute_urgency config soc') \<le> strictness (compute_urgency config soc))
       \<and> (compute_urgency config soc = EMERGENCY \<longleftrightarrow> soc \<le> soc_emergency_threshold config)
       \<and> (compute_urgency config soc = HIGH \<longleftrightarrow>
            soc_emergency_threshold config < soc \<and> soc \<le> soc_high_threshold config)
       \<and> (compute_urgency config soc = MEDIUM \<longleftrightarrow>
            soc_high_threshold config < soc \<and> soc \<le> soc_medium_threshold config)
       \<and> (compute_urgency config soc = LOW \<longleftrightarrow> soc_medium_threshold config < soc)
       \<and> compute_urgency config (soc_emergency_threshold config) = EMERGENCY
       \<and> compute_urgency config (soc_high_threshold config) = HIGH
       \<and> compute_urgency config (soc_medium_threshold config) = MEDIUM"
proof -
  have mono: "soc \<le> soc' \<longrightarrow>
      strictness (compute_urgency config soc') \<le> strictness (compute_urgency config soc)"
    using compute_urgency_antimono by blast
  have tiers: "(compute_urgency config soc = EMERGENCY \<longleftrightarrow> soc \<le> soc_emergency_threshold config)
       \<and> (compute_urgency config soc = HIGH \<longleftrightarrow>
            soc_emergency_threshold config < soc \<and> soc \<le> soc_high_threshold config)
       \<and> (compute_urgency config soc = MEDIUM \<longleftrightarrow>
            soc_high_threshold config < soc \<and> soc \<le> soc_medium_threshold config)
       \<and> (compute_urgency config soc = LOW \<longleftrightarrow> soc_medium_threshold config < soc)"
    using assms by (auto simp add: compute_urgency_def)
  have bounds: "compute_urgency config (soc_emergency_threshold config) = EMERGENCY
       \<and> compute_urgency config (soc_high_threshold config) = HIGH
       \<and> compute_urgency config (soc_medium_threshold config) = MEDIUM"
    using assms by (simp add: compute_urgency_def)
  from mono tiers bounds show ?thesis by blast
qed

theorem compute_urgency_step_function_witness:
  "strictness (compute_urgency UAConfig_values (30 / 100))
     \<le> strictness (compute_urgency UAConfig_values (8 / 100))
   \<and> compute_urgency UAConfig_values (8 / 100) = EMERGENCY
   \<and> compute_urgency UAConfig_values (10 / 100) = EMERGENCY
   \<and> compute_urgency UAConfig_values (25 / 100) = HIGH
   \<and> compute_urgency UAConfig_values (50 / 100) = MEDIUM
   \<and> compute_urgency UAConfig_values (51 / 100) = LOW"
proof -
  have asc: "soc_emergency_threshold UAConfig_values < soc_high_threshold UAConfig_values"
            "soc_high_threshold UAConfig_values < soc_medium_threshold UAConfig_values"
    by (simp_all add: UAConfig_values_def)
  note at8 = compute_urgency_step_function [OF asc, of "8 / 100" "30 / 100"]
  note at51 = compute_urgency_step_function [OF asc, of "51 / 100" "51 / 100"]
  have thr: "soc_emergency_threshold UAConfig_values = 10 / 100"
            "soc_high_threshold UAConfig_values = 25 / 100"
            "soc_medium_threshold UAConfig_values = 50 / 100"
    by (simp_all add: UAConfig_values_def)
  from at8 at51 show ?thesis
    unfolding thr by (simp add: compute_urgency_def UAConfig_values_def)
qed

text \<open>
  Claim C8.  A context whose state of charge is at most the trigger threshold triggers the
  search, whatever the distance estimate returns or raises, whatever the manual trigger flag
  of the re-sampled reading is, and whatever the scheduled-departure predicate says.
\<close>

theorem should_trigger_charging_low_soc:
  assumes "VehicleContext.state_of_charge ctx \<le> soc_trigger_threshold config"
  shows "should_trigger_charging config estimate_distance raw_data scheduled_departure ctx = Inr True"
  using assms by (simp add: should_trigger_charging_def)

theorem should_trigger_charging_low_soc_witness:
  "VehicleContext.state_of_charge
       (build_vehicle_context UAConfig_values ''vehicle_001''
          ((collect_vehicle_data 0)\<lparr>RawVehicleData.state_of_charge := 8 / 100\<rparr>))
     \<le> soc_trigger_threshold UAConfig_values
   \<and> should_trigger_charging UAConfig_values (\<lambda>a b. Inl (ValueError ''math domain error''))
       (collect_vehicle_data 0) False
       (build_vehicle_context UAConfig_values ''vehicle_001''
          ((collect_vehicle_data 0)\<lparr>RawVehicleData.state_of_charge := 8 / 100\<rparr>)) = Inr True"
proof -
  let ?ctx = "build_vehicle_context UAConfig_values ''vehicle_001''
          ((collect_vehicle_data 0)\<lparr>RawVehicleData.state_of_charge := 8 / 100\<rparr>)"
  have low: "VehicleContext.state_of_charge ?ctx \<le> soc_trigger_threshold UAConfig_values"
    by (simp add: build_vehicle_context_def collect_vehicle_data_def UAConfig_values_def)
  from low should_trigger_charging_low_soc [OF low] show ?thesis by blast
qed

section \<open>Properties of the reservation model\<close>

lemma apply_transition_accepts:
  "fst (apply_transition now t r) = None \<longleftrightarrow> guarded_transition (Reservation.status r) (target t)"
  by (cases t; cases "Reservation.status r")
     (simp_all add: mark_active_def mark_completed_def mark_cancelled_def mark_no_show_def
        guarded_transition_def)

lemma apply_transition_moves:
  "fst (apply_transition now t r) = None \<Longrightarrow>
     Reservation.status (snd (apply_transition now t r)) = target t"
  by (cases t)
     (simp_all add: mark_active_def mark_completed_def mark_cancelled_def mark_no_show_def
        split: if_splits)

lemma apply_transition_rejects:
  "fst (apply_transition now t r) = Some e \<Longrightarrow>
     snd (apply_transition now t r) = r \<and> is_ValueError e"
  by (cases t)
     (auto simp add: mark_active_def mark_completed_def mark_cancelled_def mark_no_show_def
        is_ValueError_def split: if_splits)

text \<open>
  Claim C3, as the code has it.  For every reservation and each of the four operations:
  the operation is accepted exactly when the step from the current status to the
  operation's target status is one of \<open>Confirmed \<rightarrow> Active\<close>, \<open>Active \<rightarrow> Completed\<close>,
  \<open>Confirmed \<rightarrow> NoShow\<close>, or a step to \<open>Cancelled\<close> from a status other than
  \<open>Completed\<close> and \<open>Cancelled\<close>; an accepted operation sets the status to its target;
  a rejected one raises \<open>ValueError\<close> and leaves every field of the reservation as it was.
\<close>

theorem reservation_transitions_guarded:
  "(fst (apply_transition now t r) = None
      \<longleftrightarrow> guarded_transition (Reservation.status r) (target t))
   \<and> (fst (apply_transition now t r) = None
        \<longrightarrow> Reservation.status (snd (apply_transition now t r)) = target t)
   \<and> (\<forall>e. fst (apply_transition now t r) = Some e
        \<longrightarrow> snd (apply_transition now t r) = r \<and> is_ValueError e)"
  using apply_transition_accepts apply_transition_moves apply_transition_rejects by blast

theorem reservation_transitions_guarded_witness:
  "fst (apply_transition 5 MarkActive reservation_R1) = None
   \<and> Reservation.status (snd (apply_transition 5 MarkActive reservation_R1)) = ACTIVE
   \<and> fst (apply_transition 5 MarkCompleted reservation_R1)
       = Some (ValueError ''Only ACTIVE reservation can be completed'')
   \<and> snd (apply_transition 5 MarkCompleted reservation_R1) = reservation_R1"
proof -
  note a = reservation_transitions_guarded [of 5 MarkActive reservation_R1]
  note c = reservation_transitions_guarded [of 5 MarkCompleted reservation_R1]
  from a c show ?thesis
    by (simp add: mark_active_def mark_completed_def reservation_R1_def guarded_transition_def)
qed

text \<open>
  The claim as the specification words it fails: an \<open>ACTIVE\<close> reservation is cancelled
  without an error, a step that is not among
  \<open>Confirmed \<rightarrow> Active \<rightarrow> Completed\<close>, \<open>Confirmed \<rightarrow> {Cancelled, NoShow}\<close>.
\<close>

theorem mark_cancelled_active_counterexample:
  "fst (mark_cancelled 9 FAULT (reservation_R1\<lparr>Reservation.status := ACTIVE\<rparr>)) = None
   \<and> Reservation.status (snd (mark_cancelled 9 FAULT (reservation_R1\<lparr>Reservation.status := ACTIVE\<rparr>)))
       = CANCELLED
   \<and> \<not> spec_transition ACTIVE CANCELLED"
  by (simp add: mark_cancelled_def reservation_R1_def spec_transition_def)

section \<open>Properties of the session monitor\<close>



lemma update_eta_keeps_telemetry_time:
  "last_telemetry_time (snd (update_eta config estimate fmt now m gps)) = last_telemetry_time m"
  by (simp add: update_eta_def Let_def split: option.splits sum.splits py_datetime.splits)

text \<open>
  A committed start with a UTC offset: every position update of a bound monitor raises
  \<open>TypeError\<close>, and so returns no delay result.
\<close>

lemma update_eta_aware_start_raises:
  assumes "SessionMonitor.reservation m = Some r" and "station_location m = Some loc"
      and "estimate gps loc = Inr eta"
      and "fromisoformat fmt (start_time r) = Inr (Aware start offset)"
  shows "fst (update_eta config estimate fmt now m gps)
           = Inl (TypeError ''cannot subtract offset-naive and offset-aware datetimes'')"
  using assms by (simp add: update_eta_def Let_def)

text \<open>
  Whenever \<open>update_eta\<close> returns a delay result, the delay is positive and the severity
  is the one that the two thresholds select for it.
\<close>

lemma update_eta_returned_severity:
  assumes "fst (update_eta config estimate fmt now m gps) = Inr (Some dr)"
  shows "0 < delay_minutes dr
       \<and> severity dr =
           (if delay_minutes dr \<ge> no_show_threshold_min config then ''NO_SHOW''
            else if delay_minutes dr \<ge> major_delay_threshold_min config then ''MAJOR''
            else ''MINOR'')"
  using assms
  by (auto simp add: update_eta_def Let_def
        split: option.splits sum.splits py_datetime.splits if_splits)



lemma monitor_step_keeps_no_telemetry:
  assumes "\<not> is_telemetry c" and "last_telemetry_time m = None"
  shows "last_telemetry_time (monitor_step config estimate fmt m c) = None"
  using assms
  by (cases c) (simp_all add: start_session_monitoring_def update_eta_keeps_telemetry_time)

lemma monitor_run_keeps_no_telemetry:
  assumes "\<forall>c \<in> set calls. \<not> is_telemetry c" and "last_telemetry_time m = None"
  shows "last_telemetry_time (monitor_run config estimate fmt m calls) = None"
  using assms unfolding monitor_run_def
proof (induction calls arbitrary: m)
  case Nil
  then show ?case by simp
next
  case (Cons c calls)
  from Cons.prems have "last_telemetry_time (monitor_step config estimate fmt m c) = None"
    by (simp add: monitor_step_keeps_no_telemetry)
  with Cons show ?case by simp
qed

text \<open>
  Claim C10.  After the monitor is created, or after it is rebound to a reservation by
  \<open>start_session_monitoring\<close> (whatever its state was before), and after any further
  calls among which none is \<open>receive_telemetry\<close>, \<open>telemetry_timeout_detected\<close>
  returns \<open>False\<close> at every clock value \<open>now\<close>.
\<close>

theorem telemetry_timeout_needs_telemetry:
  assumes "\<forall>c \<in> set calls. \<not> is_telemetry c"
  shows "telemetry_timeout_detected config now
           (monitor_run config estimate fmt (SessionMonitor_init vid) calls) = False
       \<and> telemetry_timeout_detected config now
           (monitor_run config estimate fmt (start_session_monitoring m r loc) calls) = False"
proof -
  have "last_telemetry_time (SessionMonitor_init vid) = None"
    by (simp add: SessionMonitor_init_def)
  then have created:
    "last_telemetry_time (monitor_run config estimate fmt (SessionMonitor_init vid) calls) = None"
    using assms by (rule monitor_run_keeps_no_telemetry [rotated])
  have "last_telemetry_time (start_session_monitoring m r loc) = None"
    by (simp add: start_session_monitoring_def)
  then have rebound:
    "last_telemetry_time (monitor_run config estimate fmt (start_session_monitoring m r loc) calls)
       = None"
    using assms by (rule monitor_run_keeps_no_telemetry [rotated])
  from created rebound show ?thesis
    by (simp add: telemetry_timeout_detected_def)
qed

text \<open>
  The witness: a monitor that did receive telemetry at time 0 reports a timeout one hour
  later; once rebound and polled for its position, it does not, at any later time.
\<close>

theorem telemetry_timeout_needs_telemetry_witness:
  "telemetry_timeout_detected UAConfig_values 3600000000
       (receive_telemetry 0 0 monitor_M1
          \<lparr>charging_progress_pct = 10, power_kw = 50, energy_kwh = 1,
           session_status = ''IN_PROGRESS'', TelemetryData.timestamp = ''t''\<rparr>)
   \<and> \<not> telemetry_timeout_detected UAConfig_values 999999999999
       (monitor_run UAConfig_values eta_zero iso_S1
          (start_session_monitoring
             (receive_telemetry 0 0 monitor_M1
                \<lparr>charging_progress_pct = 10, power_kw = 50, energy_kwh = 1,
                 session_status = ''IN_PROGRESS'', TelemetryData.timestamp = ''t''\<rparr>)
             reservation_S1 station_L1)
          [UpdateEta 3600000000 station_L1, UpdateEta 7200000000 station_L1])
   \<and> \<not> telemetry_timeout_detected UAConfig_values 999999999999
       (monitor_run UAConfig_values eta_zero iso_S1 (SessionMonitor_init ''vehicle_001'')
          [UpdateEta 3600000000 station_L1, UpdateEta 7200000000 station_L1])"
proof -
  have calls: "\<forall>c \<in> set [UpdateEta 3600000000 station_L1, UpdateEta 7200000000 station_L1].
      \<not> is_telemetry c"
    by simp
  have timed_out: "telemetry_timeout_detected UAConfig_values 3600000000
       (receive_telemetry 0 0 monitor_M1
          \<lparr>charging_progress_pct = 10, power_kw = 50, energy_kwh = 1,
           session_status = ''IN_PROGRESS'', TelemetryData.timestamp = ''t''\<rparr>)"
    by (simp add: telemetry_timeout_detected_def receive_telemetry_def Let_def UAConfig_values_def)
  from timed_out telemetry_timeout_needs_telemetry [OF calls] show ?thesis
    by simp
qed

section \<open>Properties of the local cache and the server synchronisation\<close>

lemma enqueue_sync_appends:
  "get_pending_sync_items (enqueue_sync json_dumps now c endpoint payload)
     = get_pending_sync_items c @ [(sync_queue_seq c + 1, json_dumps payload, endpoint)]"
  by (simp add: get_pending_sync_items_def enqueue_sync_def)

lemma queue_ordered_init: "queue_ordered LocalCache_init"
  by (simp add: queue_ordered_def LocalCache_init_def)

lemma queue_ordered_enqueue_sync:
  assumes "queue_ordered c"
  shows "queue_ordered (enqueue_sync json_dumps now c endpoint payload)"
  using assms
  by (fastforce simp add: queue_ordered_def enqueue_sync_def sorted_wrt_append list_all_iff)

lemma queue_ordered_remove_sync_item:
  assumes "queue_ordered c"
  shows "queue_ordered (remove_sync_item c item_id)"
  using assms
  by (auto simp add: queue_ordered_def remove_sync_item_def list_all_iff
        sorted_wrt_map sorted_wrt_filter)

lemma queue_ordered_distinct: "queue_ordered c \<Longrightarrow> distinct (map row_id (sync_queue c))"
  using strict_sorted_iff [of "map row_id (sync_queue c)"] by (simp add: queue_ordered_def)

lemma push_to_result:
  "push_to endpoint post json_dumps now srv c payload =
     (if fst (post srv endpoint payload)
      then \<lparr> push_server = snd (post srv endpoint payload), push_cache = c,
             push_events = [RemoteAttempt endpoint payload] \<rparr>
      else \<lparr> push_server = snd (post srv endpoint payload),
             push_cache = enqueue_sync json_dumps now c endpoint payload,
             push_events = [RemoteAttempt endpoint payload, OutboxAppend endpoint payload] \<rparr>)"
  by (simp add: push_to_def split: prod.splits)

text \<open>
  Claim C1, as the code has it.  \<open>push_weights\<close> and \<open>push_session\<close> make the remote
  attempt first.  When the attempt succeeds the outbox is left as it was; when it fails the
  write is then appended to the outbox, behind the entries already pending, under the next
  id, where it stays queued for redelivery.
\<close>

theorem push_sends_then_enqueues_on_failure:
  "hd (push_events (push_weights post json_dumps now srv c uid w)) = RemoteAttempt ''save_weights'' w
   \<and> hd (push_events (push_session post json_dumps now srv c w)) = RemoteAttempt ''save_session'' w
   \<and> (fst (post srv ''save_weights'' w) \<longrightarrow>
        push_cache (push_weights post json_dumps now srv c uid w) = c
        \<and> push_events (push_weights post json_dumps now srv c uid w)
            = [RemoteAttempt ''save_weights'' w])
   \<and> (fst (post srv ''save_session'' w) \<longrightarrow>
        push_cache (push_session post json_dumps now srv c w) = c
        \<and> push_events (push_session post json_dumps now srv c w)
            = [RemoteAttempt ''save_session'' w])
   \<and> (\<not> fst (post srv ''save_weights'' w) \<longrightarrow>
        get_pending_sync_items (push_cache (push_weights post json_dumps now srv c uid w))
          = get_pending_sync_items c @ [(sync_queue_seq c + 1, json_dumps w, ''save_weights'')]
        \<and> push_events (push_weights post json_dumps now srv c uid w)
            = [RemoteAttempt ''save_weights'' w, OutboxAppend ''save_weights'' w])
   \<and> (\<not> fst (post srv ''save_session'' w) \<longrightarrow>
        get_pending_sync_items (push_cache (push_session post json_dumps now srv c w))
          = get_pending_sync_items c @ [(sync_queue_seq c + 1, json_dumps w, ''save_session'')]
        \<and> push_events (push_session post json_dumps now srv c w)
            = [RemoteAttempt ''save_session'' w, OutboxAppend ''save_session'' w])"
  by (simp add: push_weights_def push_session_def push_to_result enqueue_sync_appends)

theorem push_sends_then_enqueues_on_failure_witness:
  "get_pending_sync_items
      (push_cache (push_weights backend_down id 7 () LocalCache_init ''user_001'' ''w''))
     = [(1, ''w'', ''save_weights'')]
   \<and> push_events (push_weights backend_down id 7 () LocalCache_init ''user_001'' ''w'')
       = [RemoteAttempt ''save_weights'' ''w'', OutboxAppend ''save_weights'' ''w'']
   \<and> push_cache (push_session backend_up id 7 () LocalCache_init ''s'') = LocalCache_init
   \<and> push_events (push_session backend_up id 7 () LocalCache_init ''s'')
       = [RemoteAttempt ''save_session'' ''s'']"
proof -
  note down = push_sends_then_enqueues_on_failure
    [of backend_down id 7 "()" LocalCache_init "''user_001''" "''w''"]
  note up = push_sends_then_enqueues_on_failure
    [of backend_up id 7 "()" LocalCache_init "''user_001''" "''s''"]
  from down up show ?thesis
    by (simp add: backend_down_def backend_up_def get_pending_sync_items_def LocalCache_init_def)
qed

text \<open>
  The claim as the specification words it fails.  With the backend down, the remote attempt
  of \<open>push_weights\<close> precedes the append to the outbox; with the backend up,
  \<open>push_session\<close> makes its remote attempt and the write is never in the outbox at all.
\<close>

theorem push_not_logged_before_send_counterexample:
  "\<not> logged_before_send
       (push_events (push_weights backend_down id 7 () LocalCache_init ''user_001'' ''w'')) []
   \<and> \<not> logged_before_send
       (push_events (push_session backend_up id 7 () LocalCache_init ''s'')) []
   \<and> sync_queue (push_cache (push_session backend_up id 7 () LocalCache_init ''s'')) = []"
  by (simp add: push_weights_def push_session_def push_to_def backend_down_def backend_up_def
        LocalCache_init_def)

lemma backend_answers_length: "length (backend_answers post srv requests) = length requests"
  by (induction requests arbitrary: srv) auto

lemma process_items_answers:
  assumes "map (\<lambda>it. json_loads (fst (snd it))) items = map Inr payloads"
  shows "process_items post json_loads items srv c attempts =
     \<lparr> pass_raised = None,
       pass_server = backend_after post srv (zip (map (\<lambda>it. snd (snd it)) items) payloads),
       pass_cache = c\<lparr> sync_queue :=
         filter (\<lambda>r. (row_id r, True) \<notin>
                   set (zip (map fst items)
                          (backend_answers post srv (zip (map (\<lambda>it. snd (snd it)) items) payloads))))
           (sync_queue c) \<rparr>,
       pass_attempts = attempts @
         zip (map fst items)
           (backend_answers post srv (zip (map (\<lambda>it. snd (snd it)) items) payloads)) \<rparr>"
  using assms
proof (induction items arbitrary: payloads srv c attempts)
  case Nil
  then show ?case by simp
next
  case (Cons it items)
  obtain item_id payload_json endpoint where it: "it = (item_id, payload_json, endpoint)"
    by (cases it) auto
  from Cons.prems obtain payload rest where payloads: "payloads = payload # rest"
    and payload: "json_loads payload_json = Inr payload"
    and rest: "map (\<lambda>it. json_loads (fst (snd it))) items = map Inr rest"
    using it by (cases payloads) auto
  obtain ok srv' where post: "post srv endpoint payload = (ok, srv')"
    by (cases "post srv endpoint payload") auto
  let ?requests = "zip (map (\<lambda>it. snd (snd it)) items) rest"
  let ?answers = "backend_answers post srv' ?requests"
  show ?case
  proof (cases ok)
    case True
    have filt: "filter (\<lambda>r. (row_id r, True) \<notin> set (zip (map fst items) ?answers))
            (filter (\<lambda>r. row_id r \<noteq> item_id) (sync_queue c))
        = filter (\<lambda>r. (row_id r, True) \<notin> set ((item_id, True) # zip (map fst items) ?answers))
            (sync_queue c)"
      by (auto intro: filter_cong)
    show ?thesis
      using Cons.IH [OF rest, of srv' "remove_sync_item c item_id" "attempts @ [(item_id, True)]"]
        it payloads payload post True filt
      by (simp add: remove_sync_item_def)
  next
    case False
    show ?thesis
      using Cons.IH [OF rest, of srv' c "attempts @ [(item_id, False)]"]
        it payloads payload post False
      by simp
  qed
qed

lemma survivors_by_position:
  assumes "distinct (map f xs)" and "length bs = length xs"
  shows "filter (\<lambda>x. (f x, True) \<notin> set (zip (map f xs) bs)) xs
       = map fst (filter (\<lambda>(x, b). \<not> b) (zip xs bs))"
  using assms(2,1)
proof (induction bs xs rule: list_induct2)
  case Nil
  then show ?case by simp
next
  case (Cons b bs x xs)
  from Cons.prems have new: "f x \<notin> set (map f xs)" and dist: "distinct (map f xs)"
    by simp_all
  have head: "(f x, True) \<notin> set (zip (map f xs) bs)"
    using new by (auto dest: set_zip_leftD)
  have tail: "filter (\<lambda>y. (f y, True) \<notin> set ((f x, b) # zip (map f xs) bs)) xs
      = filter (\<lambda>y. (f y, True) \<notin> set (zip (map f xs) bs)) xs"
    using new by (intro filter_cong) (auto simp add: image_iff)
  show ?case
    using Cons.IH [OF dist] head tail by (cases b) simp_all
qed

text \<open>
  Claim C9.  In a pass over a queue whose payloads all decode, to \<open>payloads\<close>, and whose
  ids are distinct (\<open>id\<close> is the primary key): the pass runs to its end; its attempts are
  the entries of the queue in their order, which is the order in which they were enqueued,
  each with the answer that the backend gave to the request for that entry, the requests
  being sent one after the other whether or not earlier ones failed; the backend is left in
  the state after those requests; and the cache differs from the one before only in its
  queue, which holds, in the old order, exactly the entries whose request the backend did
  not accept.
\<close>

theorem process_sync_queue_pass:
  assumes "map (\<lambda>r. json_loads (row_payload r)) (sync_queue c) = map Inr payloads"
      and "distinct (map row_id (sync_queue c))"
  shows "process_sync_queue post json_loads srv c =
     \<lparr> pass_raised = None,
       pass_server = backend_after post srv (zip (map row_endpoint (sync_queue c)) payloads),
       pass_cache = c\<lparr> sync_queue :=
         map fst (filter (\<lambda>(r, ok). \<not> ok)
           (zip (sync_queue c)
              (backend_answers post srv (zip (map row_endpoint (sync_queue c)) payloads)))) \<rparr>,
       pass_attempts =
         zip (map row_id (sync_queue c))
           (backend_answers post srv (zip (map row_endpoint (sync_queue c)) payloads)) \<rparr>
     \<and> length (backend_answers post srv (zip (map row_endpoint (sync_queue c)) payloads))
         = length (sync_queue c)"
proof -
  let ?requests = "zip (map row_endpoint (sync_queue c)) payloads"
  let ?answers = "backend_answers post srv ?requests"
  have len_payloads: "length payloads = length (sync_queue c)"
    using assms(1) by (metis length_map)
  then have len: "length ?answers = length (sync_queue c)"
    by (simp add: backend_answers_length)
  have items: "map (\<lambda>it. json_loads (fst (snd it))) (get_pending_sync_items c) = map Inr payloads"
    using assms(1) by (simp add: get_pending_sync_items_def o_def)
  have ids: "map fst (get_pending_sync_items c) = map row_id (sync_queue c)"
    and endpoints: "map (\<lambda>it. snd (snd it)) (get_pending_sync_items c) = map row_endpoint (sync_queue c)"
    by (simp_all add: get_pending_sync_items_def o_def)
  have survivors: "filter (\<lambda>r. (row_id r, True) \<notin> set (zip (map row_id (sync_queue c)) ?answers))
        (sync_queue c)
      = map fst (filter (\<lambda>(r, ok). \<not> ok) (zip (sync_queue c) ?answers))"
    using assms(2) len by (rule survivors_by_position)
  from process_items_answers [OF items, of post srv c "[]"] survivors len
  show ?thesis
    unfolding process_sync_queue_def ids endpoints by simp
qed

theorem process_sync_queue_pass_witness:
  "pass_raised (process_sync_queue backend_refusing_first text_loads () cache_Q3) = None
   \<and> pass_attempts (process_sync_queue backend_refusing_first text_loads () cache_Q3)
       = [(1, False), (2, True), (3, True)]
   \<and> map row_payload (sync_queue cache_Q3) = [''first'', ''second'', ''third'']
   \<and> map row_payload
        (sync_queue (pass_cache (process_sync_queue backend_refusing_first text_loads () cache_Q3)))
       = [''first'']
   \<and> sync_queue (pass_cache (process_sync_queue backend_down text_loads () cache_Q3))
       = sync_queue cache_Q3"
proof -
  have queue: "sync_queue cache_Q3 =
      [\<lparr>row_id = 1, row_payload = ''first'', row_endpoint = ''save_session'', row_created_at = 10\<rparr>,
       \<lparr>row_id = 2, row_payload = ''second'', row_endpoint = ''save_weights'', row_created_at = 20\<rparr>,
       \<lparr>row_id = 3, row_payload = ''third'', row_endpoint = ''save_session'', row_created_at = 30\<rparr>]"
    by (simp add: cache_Q3_def enqueue_sync_def LocalCache_init_def)
  have valid: "map (\<lambda>r. text_loads (row_payload r)) (sync_queue cache_Q3)
      = map Inr [''first'', ''second'', ''third'']"
    by (simp add: queue text_loads_def)
  have ids: "distinct (map row_id (sync_queue cache_Q3))"
    by (simp add: queue)
  from process_sync_queue_pass [OF valid ids, of backend_refusing_first "()"]
       process_sync_queue_pass [OF valid ids, of backend_down "()"]
  show ?thesis
    by (simp add: queue backend_refusing_first_def backend_down_def)
qed


section \<open>Properties of the retrying calls\<close>

lemma backoff_delay_shift: "backoff_delay (d * f) f k = backoff_delay d f (Suc k)"
  by (induction k) simp_all

lemma execute_attempts_not_None:
  assumes "attempts \<noteq> []" and "last attempts = max_attempts policy"
  shows "returned (execute_attempts policy func attempts delay n sl) \<noteq> Inr None"
  using assms
proof (induction attempts arbitrary: delay n sl)
  case Nil
  then show ?case by simp
next
  case (Cons attempt attempts)
  show ?case
  proof (cases "func n")
    case (Inr result)
    then show ?thesis by simp
  next
    case (Inl e)
    show ?thesis
    proof (cases "attempt = max_attempts policy \<or> delay < 0")
      case True
      with Inl show ?thesis by auto
    next
      case False
      with Cons.prems have "attempts \<noteq> []" and "last attempts = max_attempts policy"
        by (auto split: if_splits)
      from Cons.IH [OF this] Inl False show ?thesis by simp
    qed
  qed
qed

lemma execute_attempts_calls:
  "calls_made (execute_attempts policy func attempts delay n sl) \<le> n + length attempts"
proof (induction attempts arbitrary: delay n sl)
  case Nil
  then show ?case by simp
next
  case (Cons attempt attempts)
  have "calls_made (execute_attempts policy func attempts (delay * backoff_factor policy) (Suc n) (sl @ [delay]))
      \<le> Suc n + length attempts"
    by (rule Cons.IH)
  then show ?case by (simp split: sum.splits)
qed

lemma execute_attempts_success:
  assumes "returned (execute_attempts policy func attempts delay n sl) = Inr (Some v)"
  shows "\<exists>k. n \<le> k \<and> k < n + length attempts \<and> func k = Inr v
           \<and> (\<forall>i. n \<le> i \<and> i < k \<longrightarrow> isl (func i))
           \<and> calls_made (execute_attempts policy func attempts delay n sl) = Suc k"
  using assms
proof (induction attempts arbitrary: delay n sl)
  case Nil
  then show ?case by simp
next
  case (Cons attempt attempts)
  show ?case
  proof (cases "func n")
    case (Inr result)
    with Cons.prems have "result = v" by simp
    with Inr show ?thesis by (intro exI [of _ n]) auto
  next
    case (Inl e)
    let ?rest = "execute_attempts policy func attempts (delay * backoff_factor policy) (Suc n) (sl @ [delay])"
    from Cons.prems Inl have go: "execute_attempts policy func (attempt # attempts) delay n sl = ?rest"
      and "returned ?rest = Inr (Some v)"
      by (auto split: if_splits)
    from Cons.IH [OF this(2)] obtain k where k: "Suc n \<le> k" "k < Suc n + length attempts"
        "func k = Inr v" "\<forall>i. Suc n \<le> i \<and> i < k \<longrightarrow> isl (func i)" "calls_made ?rest = Suc k"
      by blast
    have "\<forall>i. n \<le> i \<and> i < k \<longrightarrow> isl (func i)"
    proof (intro allI impI)
      fix i assume "n \<le> i \<and> i < k"
      then show "isl (func i)"
        using k(4) Inl by (cases "i = n") auto
    qed
    with k go show ?thesis by (intro exI [of _ k]) simp
  qed
qed

lemma execute_attempts_slept:
  "\<exists>j. slept (execute_attempts policy func attempts delay n sl)
         = sl @ map (backoff_delay delay (backoff_factor policy)) [0..<j]"
proof (induction attempts arbitrary: delay n sl)
  case Nil
  show ?case by (intro exI [of _ 0]) simp
next
  case (Cons attempt attempts)
  let ?f = "backoff_factor policy"
  obtain j where j: "slept (execute_attempts policy func attempts (delay * ?f) (Suc n) (sl @ [delay]))
      = (sl @ [delay]) @ map (backoff_delay (delay * ?f) ?f) [0..<j]"
    using Cons.IH by blast
  have shift: "delay # map (backoff_delay (delay * ?f) ?f) [0..<j]
      = map (backoff_delay delay ?f) [0..<Suc j]"
    by (simp add: backoff_delay_shift upt_rec [of 0] map_Suc_upt [symmetric] del: upt_Suc)
  have none: "\<exists>j. sl = sl @ map (backoff_delay delay ?f) [0..<j]"
    by (intro exI [of _ 0]) simp
  have more: "\<exists>j'. (sl @ [delay]) @ map (backoff_delay (delay * ?f) ?f) [0..<j]
      = sl @ map (backoff_delay delay ?f) [0..<j']"
    using shift by (intro exI [of _ "Suc j"]) simp
  show ?case
    using none more j by (auto split: sum.splits)
qed

lemma upto_from_one: "1 \<le> m \<Longrightarrow> [1..m] \<noteq> [] \<and> last [1..m] = m"
  by (simp add: upto_rec2 [of 1 m])

lemma execute_positive_budget:
  assumes "1 \<le> max_attempts policy"
  shows "returned (execute policy func) \<noteq> Inr None
       \<and> calls_made (execute policy func) \<le> nat (max_attempts policy)
       \<and> (\<exists>j. slept (execute policy func)
                = map (backoff_delay (initial_delay policy) (backoff_factor policy)) [0..<j])
       \<and> ((\<forall>k. isl (func k)) \<longrightarrow> isl (returned (execute policy func)))
       \<and> (\<forall>v. returned (execute policy func) = Inr (Some v) \<longrightarrow>
             (\<exists>k < nat (max_attempts policy). func k = Inr v \<and> (\<forall>i < k. isl (func i))
                \<and> calls_made (execute policy func) = Suc k))"
proof -
  let ?run = "execute policy func"
  have run: "?run = execute_attempts policy func [1..max_attempts policy] (initial_delay policy) 0 []"
    by (simp add: execute_def)
  from upto_from_one [OF assms] have notNone: "returned ?run \<noteq> Inr None"
    unfolding run by (intro execute_attempts_not_None) simp_all
  have calls: "calls_made ?run \<le> nat (max_attempts policy)"
    unfolding run using execute_attempts_calls [of policy func "[1..max_attempts policy]" "initial_delay policy" 0 "[]"]
    by simp
  have sl: "\<exists>j. slept ?run = map (backoff_delay (initial_delay policy) (backoff_factor policy)) [0..<j]"
    unfolding run using execute_attempts_slept [of policy func "[1..max_attempts policy]" "initial_delay policy" 0 "[]"]
    by simp
  have succ: "\<forall>v. returned ?run = Inr (Some v) \<longrightarrow>
             (\<exists>k < nat (max_attempts policy). func k = Inr v \<and> (\<forall>i < k. isl (func i))
                \<and> calls_made ?run = Suc k)"
  proof (intro allI impI)
    fix v assume "returned ?run = Inr (Some v)"
    from execute_attempts_success [OF this [unfolded run]]
    show "\<exists>k < nat (max_attempts policy). func k = Inr v \<and> (\<forall>i < k. isl (func i))
                \<and> calls_made ?run = Suc k"
      unfolding run by auto
  qed
  have fail: "(\<forall>k. isl (func k)) \<longrightarrow> isl (returned ?run)"
  proof
    assume all: "\<forall>k. isl (func k)"
    show "isl (returned ?run)"
    proof (cases "returned ?run")
      case (Inl e)
      then show ?thesis by simp
    next
      case (Inr opt)
      with notNone obtain v where "returned ?run = Inr (Some v)" by (cases opt) auto
      with succ obtain k where "func k = Inr v" by blast
      with all have False by (metis sum.disc(2))
      then show ?thesis ..
    qed
  qed
  from notNone calls sl fail succ show ?thesis by blast
qed

lemma post_attempts_all_fail:
  assumes "\<forall>k. isl (request k)"
  shows "isl (returned (post_attempts request attempts delay n sl))"
proof (induction attempts arbitrary: delay n sl)
  case Nil
  show ?case by simp
next
  case (Cons attempt attempts)
  from assms obtain e where "request n = Inl e"
    by (cases "request n") (auto dest: spec [of _ n])
  with Cons.IH show ?case by simp
qed

lemma post_attempts_not_None:
  "returned (post_attempts request attempts delay n sl) \<noteq> Inr None"
  by (induction attempts arbitrary: delay n sl) (simp_all split: sum.splits)

lemma post_attempts_calls:
  "calls_made (post_attempts request attempts delay n sl) \<le> n + length attempts"
proof (induction attempts arbitrary: delay n sl)
  case Nil
  show ?case by simp
next
  case (Cons attempt attempts)
  have "calls_made (post_attempts request attempts (delay * 2) (Suc n) (sl @ [delay]))
      \<le> Suc n + length attempts"
    by (rule Cons.IH)
  then show ?case by (simp split: sum.splits)
qed

text \<open>
  \<open>CAClient._post_with_retry\<close> ends every run of failed requests with an exception,
  whatever the retry budget is, and makes at most \<open>max_retries\<close> requests.
\<close>

lemma post_with_retry_exhausted:
  "(\<forall>k. isl (request k)) \<Longrightarrow> isl (returned (post_with_retry config request))"
  by (simp add: post_with_retry_def post_attempts_all_fail)

lemma post_with_retry_budget:
  "calls_made (post_with_retry config request) \<le> nat (max_retries config)"
  using post_attempts_calls
    [of request "[0..max_retries config - 1]" "initial_retry_delay config" 0 "[]"]
  by (simp add: post_with_retry_def)

text \<open>
  Both loops on the default budget of three: all calls failing, and the third succeeding.
\<close>

lemma retry_examples:
  "execute RetryPolicy_init always_failing
     = \<lparr> returned = Inl (Exception ''connection refused''), calls_made = 3, slept = [1, 2] \<rparr>"
  "execute RetryPolicy_init succeeding_third
     = \<lparr> returned = Inr (Some ''ok''), calls_made = 3, slept = [1, 2] \<rparr>"
  "post_with_retry UAConfig_values always_failing
     = \<lparr> returned = Inl (Exception ''CA unreachable after retries''), calls_made = 3,
         slept = [1, 2, 4] \<rparr>"
  "post_with_retry UAConfig_values succeeding_third
     = \<lparr> returned = Inr (Some ''ok''), calls_made = 3, slept = [1, 2] \<rparr>"
  by (simp_all add: execute_def post_with_retry_def RetryPolicy_init_def UAConfig_values_def
        always_failing_def succeeding_third_def upto.simps)

text \<open>
  Claim C5 on \<open>RetryPolicy.execute\<close>.  With an attempt budget of at least one the claim
  holds (\<open>execute_positive_budget\<close>).  With a budget of zero or less the loop body never
  runs: \<open>execute\<close> makes no attempt, raises nothing and returns \<open>None\<close>.
\<close>

theorem execute_zero_budget:
  assumes "max_attempts policy \<le> 0"
  shows "execute policy func = \<lparr> returned = Inr None, calls_made = 0, slept = [] \<rparr>"
  using assms by (simp add: execute_def)

theorem execute_zero_budget_witness:
  "max_attempts (RetryPolicy_init\<lparr>max_attempts := 0\<rparr>) \<le> 0
   \<and> execute (RetryPolicy_init\<lparr>max_attempts := 0\<rparr>) always_failing
       = \<lparr> returned = Inr None, calls_made = 0, slept = [] \<rparr>
   \<and> returned (post_with_retry (UAConfig_values\<lparr>max_retries := 0\<rparr>) always_failing)
       = Inl (Exception ''CA unreachable after retries'')"
proof -
  have zero: "max_attempts (RetryPolicy_init\<lparr>max_attempts := 0\<rparr>) \<le> 0"
    by simp
  from zero execute_zero_budget [OF zero, of always_failing] show ?thesis
    by (simp add: post_with_retry_def)
qed

section \<open>Properties of the orchestrator\<close>

lemma upper_ACCEPT: "upper ''ACCEPT'' = ''ACCEPT''" and upper_accept: "upper ''accept'' = ''ACCEPT''"
  by code_simp+

lemma handle_user_selection_absent:
  assumes "upper act = ''ACCEPT''"
      and "list_all (\<lambda>opt. Some (StationOption.station_id opt) \<noteq> sid) (ranked_stations rm)"
  shows "\<exists>msg. handle_user_selection rm act sid = (Inl (ValueError msg), rm)"
  using assms
  by (auto simp add: handle_user_selection_def list_ex_iff list_all_iff split: option.splits)

text \<open>
  \<open>_confirm_reservation\<close> calls the coordinator once and leaves the state
  \<open>MONITORING\<close>, also when the coordinator answered: the log line raises.
\<close>

lemma confirm_reservation_outcome:
  "state (confirm_reservation ca orch sid) = MONITORING
   \<and> confirm_calls (confirm_reservation ca orch sid) = confirm_calls orch @ [sid]"
  by (simp add: confirm_reservation_def reservation_id_attribute_def Let_def split: sum.splits)

text \<open>
  Claim C4.  A user decision whose action reads \<open>ACCEPT\<close> in upper case, with a station id
  that no entry of the ranked list last received carries (or with no station id at all):
  the validation raises \<open>ValueError\<close>, the orchestrator is left exactly as it was, its state
  included, and \<open>confirm_station_selection\<close> is not called.
\<close>

theorem accept_unknown_station_rejected:
  assumes "upper act = ''ACCEPT''"
      and "list_all (\<lambda>opt. Some (StationOption.station_id opt) \<noteq> sid)
             (ranked_stations (recommendation_manager orch))"
  shows "(\<exists>msg. fst (handle_user_action ca orch act sid) = Some (ValueError msg))
       \<and> snd (handle_user_action ca orch act sid) = orch
       \<and> state (snd (handle_user_action ca orch act sid)) = state orch
       \<and> confirm_calls (snd (handle_user_action ca orch act sid)) = confirm_calls orch"
proof -
  from handle_user_selection_absent [OF assms]
  obtain msg where "handle_user_selection (recommendation_manager orch) act sid
      = (Inl (ValueError msg), recommendation_manager orch)"
    by blast
  then have "handle_user_action ca orch act sid = (Some (ValueError msg), orch)"
    by (simp add: handle_user_action_def)
  then show ?thesis by simp
qed

text \<open>
  The witness: \<open>ST-9\<close> is not in the list \<open>[ST-1, ST-2]\<close> and is rejected; accepting
  \<open>ST-2\<close> from the same orchestrator does call the coordinator.
\<close>

theorem accept_unknown_station_rejected_witness:
  "(\<exists>msg. fst (handle_user_action coordinator_C1 orchestrator_awaiting ''accept'' (Some ''ST-9''))
       = Some (ValueError msg))
   \<and> snd (handle_user_action coordinator_C1 orchestrator_awaiting ''accept'' (Some ''ST-9''))
       = orchestrator_awaiting
   \<and> confirm_calls
        (snd (handle_user_action coordinator_C1 orchestrator_awaiting ''accept'' (Some ''ST-9''))) = []
   \<and> confirm_calls
        (snd (handle_user_action coordinator_C1 orchestrator_awaiting ''ACCEPT'' (Some ''ST-2'')))
       = [''ST-2'']"
proof -
  have absent: "list_all (\<lambda>opt. Some (StationOption.station_id opt) \<noteq> Some ''ST-9'')
      (ranked_stations (recommendation_manager orchestrator_awaiting))"
    by (simp add: orchestrator_awaiting_def receive_ranked_stations_def station_A_def station_B_def)
  have calls: "confirm_calls orchestrator_awaiting = []"
    by (simp add: orchestrator_awaiting_def UAOrchestrator_init_def)
  have accepted: "confirm_calls
        (snd (handle_user_action coordinator_C1 orchestrator_awaiting ''ACCEPT'' (Some ''ST-2'')))
       = [''ST-2'']"
    by (simp add: handle_user_action_def handle_user_selection_def upper_ACCEPT truthy_def
          confirm_reservation_def reservation_id_attribute_def coordinator_C1_def
          orchestrator_awaiting_def receive_ranked_stations_def station_A_def station_B_def
          UAOrchestrator_init_def)
  from accept_unknown_station_rejected [OF upper_accept absent, of coordinator_C1] calls accepted
  show ?thesis by simp
qed

text \<open>
  Claim C2 on \<open>UAOrchestrator._start_session_monitoring\<close>.  In the state
  \<open>RESERVATION_CONFIRMED\<close> the cycle calls \<open>start_session_monitoring\<close> with the
  reservation alone; the call raises \<open>TypeError\<close>, the session monitor is not initialised
  and the state is not set to \<open>SESSION_ACTIVE\<close>: the loop of \<open>start\<close> catches the
  exception and moves to \<open>ERROR\<close>, where every later round leaves it.
\<close>

theorem reservation_confirmed_cycle_raises:
  assumes "state orch = RESERVATION_CONFIRMED"
  shows "run_cycle h orch =
           (Some (TypeError
              ''start_session_monitoring() missing 1 required positional argument: station_location''),
            orch)
       \<and> session_monitor (loop_round h orch) = session_monitor orch
       \<and> state (loop_round h orch) = ERROR
       \<and> loop_round h (loop_round h orch) = loop_round h orch"
proof -
  have cycle: "run_cycle h orch =
           (Some (TypeError
              ''start_session_monitoring() missing 1 required positional argument: station_location''),
            orch)"
    using assms
    by (simp add: run_cycle_def orch_start_session_monitoring_def call_start_session_monitoring_def)
  then have round: "loop_round h orch = orch\<lparr> state := ERROR \<rparr>"
    by (simp add: loop_round_def)
  have "loop_round h (orch\<lparr> state := ERROR \<rparr>) = orch\<lparr> state := ERROR \<rparr>"
    by (simp add: loop_round_def run_cycle_def)
  with cycle round show ?thesis by simp
qed

theorem reservation_confirmed_cycle_raises_witness:
  "state orchestrator_confirmed = RESERVATION_CONFIRMED
   \<and> active_reservation (cache orchestrator_confirmed) = Some (answer_C1 ''ST-2'')
   \<and> fst (run_cycle idle_handlers orchestrator_confirmed)
       = Some (TypeError
           ''start_session_monitoring() missing 1 required positional argument: station_location'')
   \<and> SessionMonitor.reservation (session_monitor (loop_round idle_handlers orchestrator_confirmed))
       = None
   \<and> state (loop_round idle_handlers orchestrator_confirmed) = ERROR"
proof -
  have st: "state orchestrator_confirmed = RESERVATION_CONFIRMED"
    by (simp add: orchestrator_confirmed_def)
  have unbound: "SessionMonitor.reservation (session_monitor orchestrator_confirmed) = None"
    by (simp add: orchestrator_confirmed_def orchestrator_awaiting_def UAOrchestrator_init_def
          SessionMonitor_init_def)
  have res: "active_reservation (cache orchestrator_confirmed) = Some (answer_C1 ''ST-2'')"
    by (simp add: orchestrator_confirmed_def)
  from st unbound res reservation_confirmed_cycle_raises [OF st, of idle_handlers]
  show ?thesis by simp
qed

end
